theory Spec2Isabelle
  imports Main "HOL-Library.AList" "HOL-Library.Sublist" "HOL-Library.Multiset"
begin

section \<open>Go values: errors, panics and results\<close>

text \<open>
  Strings are byte lists, as Go's \<^verbatim>\<open>string\<close> and \<^verbatim>\<open>[]byte\<close> are.

  The package \<^verbatim>\<open>command\<close> builds its error with \<^verbatim>\<open>newExitError(cmd, code, stderr)\<close>.
  Modelled from the spec: the declaration of the error type and of \<^verbatim>\<open>newExitError\<close>
  is not part of the source files; the spec describes the value as a typed error carrying
  the command name, the exit code and the captured standard-error text, so it is a
  constructor with these three fields. \<open>ErrorString\<close> is the value of \<^verbatim>\<open>errors.New\<close>.
  \<open>MalformedRecordError\<close>, \<open>TimestampError\<close> and \<open>EntryNotFoundError\<close> are the errors of the
  machine-readable parser and of the entry lookup, which the spec names.
\<close>

datatype error =
    ExitError (errCmd: string) (errCode: int) (errStderr: string)
  | ErrorString string
  | MalformedRecordError
  | TimestampError string
  | EntryNotFoundError string

definition newExitError :: "string \<Rightarrow> int \<Rightarrow> string \<Rightarrow> error" where
  "newExitError cmd code stderr_text = ExitError cmd code stderr_text"

text \<open>
  A Go function either returns or panics. \<open>IndexOutOfRange i n\<close> is the runtime panic of
  an index expression \<^verbatim>\<open>xs[i]\<close> on a slice of length \<open>n \<le> i\<close>; \<open>PanicMsg\<close> is an
  explicit \<^verbatim>\<open>panic(msg)\<close>.
\<close>

datatype panic = IndexOutOfRange nat nat | PanicMsg string

datatype 'a outcome = Panic panic | Return 'a

definition index :: "'a list \<Rightarrow> nat \<Rightarrow> 'a outcome" where
  "index xs i = (if i < length xs then Return (xs ! i) else Panic (IndexOutOfRange i (length xs)))"

definition bind :: "'a outcome \<Rightarrow> ('a \<Rightarrow> 'b outcome) \<Rightarrow> 'b outcome" where
  "bind x f = (case x of Panic p \<Rightarrow> Panic p | Return v \<Rightarrow> f v)"

fun Join :: "string list \<Rightarrow> string \<Rightarrow> string" where
  "Join [] sep = []"
| "Join [x] sep = x"
| "Join (x # y # ys) sep = x @ sep @ Join (y # ys) sep"

section \<open>Package command: the shell runner\<close>

text \<open>
  \<^verbatim>\<open>exec.Cmd.Run\<close> of the Go standard library: the process either could not be run at
  all (any error that is not an \<^verbatim>\<open>*exec.ExitError\<close>), or it ran and ended with an exit
  code; \<^verbatim>\<open>Run\<close> returns \<^verbatim>\<open>nil\<close> for exit code 0 and an \<^verbatim>\<open>*exec.ExitError\<close>
  whose \<^verbatim>\<open>ExitCode()\<close> is the code otherwise. Both buffers hold what the process wrote.
\<close>

datatype exit_status = Exited int | NotRun string

record process =
  stdout :: string
  stderr :: string
  ended :: exit_status

datatype run_error = ExitErr int | OtherErr string

fun Run :: "process \<Rightarrow> run_error option" where
  "Run p = (case ended p of
      Exited code \<Rightarrow> (if code = 0 then None else Some (ExitErr code))
    | NotRun msg \<Rightarrow> Some (OtherErr msg))"

type_synonym os = "string \<Rightarrow> string list \<Rightarrow> process"

type_synonym Runner = "string \<Rightarrow> string list \<Rightarrow> (string \<times> error option) outcome"

definition Execute :: "os \<Rightarrow> Runner" where
  "Execute sys cmd args =
     (let c = sys cmd args in
      case Run c of
        None \<Rightarrow> Return (stdout c, None)
      | Some (ExitErr code) \<Rightarrow> Return (stdout c, Some (newExitError cmd code (stderr c)))
      | Some (OtherErr msg) \<Rightarrow> Panic (PanicMsg (''unexpected error: '' @ msg)))"

section \<open>Package vagrantexec: the wrapper\<close>

record Plugin =
  Name :: string
  Version :: string
  Location :: string

text \<open>
  The wrapper holds the executable's name and a \<open>Runner\<close>. Its logger only receives
  messages; the calls to it, and the calls to the runner, are recorded as events in the
  order in which they happen.
\<close>

record wrapper =
  executable :: string
  runner :: Runner

datatype event =
    Infof string
  | Debugf string
  | Info string
  | Executed string "string list"

definition exec :: "wrapper \<Rightarrow> string list \<Rightarrow> event list \<times> (string \<times> error option) outcome" where
  "exec w args =
     (let fullCmd = executable w @ '' '' @ Join args '' '';
          started = [Infof (''Running command ['' @ fullCmd @ '']''), Executed (executable w) args]
      in case runner w (executable w) args of
           Panic p \<Rightarrow> (started, Panic p)
         | Return (bs, err) \<Rightarrow>
             (started @ [Debugf (''Command output ['' @ fullCmd @ '']: '' @ bs)], Return (bs, err)))"

definition info :: "string \<Rightarrow> event list" where
  "info out = (if length out > 0 then [Info out] else [])"

definition PluginInstall :: "wrapper \<Rightarrow> Plugin \<Rightarrow> event list \<times> error option outcome" where
  "PluginInstall w plugin =
     (if length (Plugin.Name plugin) = 0 then ([], Return (Some (ErrorString ''plugin must have a name'')))
      else
        let cmdArgs = [''plugin'', ''install'', Plugin.Name plugin];
            cmdArgs = (if length (Plugin.Version plugin) > 0
                       then cmdArgs @ [''--plugin-version'', Plugin.Version plugin] else cmdArgs);
            cmdArgs = (if Plugin.Location plugin = ''local'' then cmdArgs @ [''--local''] else cmdArgs)
        in case exec w cmdArgs of
             (evs, Panic p) \<Rightarrow> (evs, Panic p)
           | (evs, Return (out, err)) \<Rightarrow>
               (if err = None then (evs @ info out, Return err) else (evs, Return err)))"

subsection \<open>The lifecycle commands\<close>

definition Up :: "wrapper \<Rightarrow> event list \<times> error option outcome" where
  "Up w =
     (case exec w [''up''] of
        (evs, Panic p) \<Rightarrow> (evs, Panic p)
      | (evs, Return (out, err)) \<Rightarrow>
          (if err = None then (evs @ info out, Return err) else (evs, Return err)))"

definition Halt :: "wrapper \<Rightarrow> event list \<times> error option outcome" where
  "Halt w =
     (case exec w [''halt''] of
        (evs, Panic p) \<Rightarrow> (evs, Panic p)
      | (evs, Return (out, err)) \<Rightarrow>
          (if err = None then (evs @ info out, Return err) else (evs, Return err)))"

definition Destroy :: "wrapper \<Rightarrow> event list \<times> error option outcome" where
  "Destroy w =
     (case exec w [''destroy'', ''--force''] of
        (evs, Panic p) \<Rightarrow> (evs, Panic p)
      | (evs, Return (out, err)) \<Rightarrow>
          (if err = None then (evs @ info out, Return err) else (evs, Return err)))"

definition SSH :: "wrapper \<Rightarrow> string \<Rightarrow> event list \<times> (string \<times> error option) outcome" where
  "SSH w command =
     (case exec w [''ssh'', ''--no-tty'', ''--command'', command] of
        (evs, Panic p) \<Rightarrow> (evs, Panic p)
      | (evs, Return (out, err)) \<Rightarrow> (evs, Return (out, err)))"

subsection \<open>Machine-readable records\<close>

text \<open>
  One parsed line of the machine-readable output. The declaration of the Go type is not
  part of the source files; the wrapper reads its fields \<^verbatim>\<open>target\<close>, \<^verbatim>\<open>mType\<close>
  and \<^verbatim>\<open>data\<close>, and the spec gives the timestamp as an integer.

  \<^verbatim>\<open>parseMachineReadable\<close> is not part of the source files either. The wrapper
  operations take it as a parameter \<open>parse\<close>: a function from the command's output to a
  record sequence and an error.
\<close>

record entry =
  timestamp :: int
  target :: string
  mType :: string
  data :: "string list"

type_synonym parser = "string \<Rightarrow> entry list \<times> error option"

subsection \<open>Status\<close>

text \<open>
  Modelled from the spec: \<^verbatim>\<open>MachineState\<close> and \<^verbatim>\<open>ToMachineState\<close> are not part of the
  source files. The spec describes a closed enumeration of the lifecycle states running,
  poweroff, saved, aborted and not_created with a fallback for every other string, and a
  mapping from the raw state string that is total.
\<close>

datatype MachineState = Running | PowerOff | Saved | Aborted | NotCreated | Unknown

definition stateNames :: "(string \<times> MachineState) list" where
  "stateNames =
     [(''running'', Running), (''poweroff'', PowerOff), (''saved'', Saved),
      (''aborted'', Aborted), (''not_created'', NotCreated)]"

definition ToMachineState :: "string \<Rightarrow> MachineState" where
  "ToMachineState s = (case map_of stateNames s of Some st \<Rightarrow> st | None \<Rightarrow> Unknown)"

text \<open>
  \<^verbatim>\<open>MachineStatus\<close> has the fields the wrapper writes. \<^verbatim>\<open>&MachineStatus{Name: t}\<close>
  leaves \<^verbatim>\<open>Provider\<close> empty and \<^verbatim>\<open>State\<close> at the zero value of its type, which the
  source files do not show: \<open>None\<close> stands for that zero value.
\<close>

record MachineStatus =
  Name :: string
  Provider :: string
  State :: "MachineState option"

text \<open>
  \<^verbatim>\<open>statusMap\<close> is a Go map from target to a pointer to its status. Every key has a
  struct of its own, so a write through the pointer is an update of the key's value. The
  association list keeps the keys distinct, in the order of their creation.
\<close>

type_synonym statusMap = "(string \<times> MachineStatus) list"

text \<open>Fetch the status of a target, or create it when missing.\<close>

definition fetch :: "statusMap \<Rightarrow> string \<Rightarrow> MachineStatus \<times> statusMap" where
  "fetch statusMap t =
     (case map_of statusMap t of
        Some status \<Rightarrow> (status, statusMap)
      | None \<Rightarrow>
          (let status = \<lparr>Name = t, Provider = [], State = None\<rparr>
           in (status, AList.update t status statusMap)))"

text \<open>The body of the loop over the records, for one record.\<close>

definition statusEntry :: "statusMap \<Rightarrow> entry \<Rightarrow> statusMap outcome" where
  "statusEntry statusMap e =
     (if length (target e) = 0 then Return statusMap
      else
        (case fetch statusMap (target e) of (status, statusMap) \<Rightarrow>
          (if mType e = ''provider-name'' then
             bind (index (data e) 0) (\<lambda>d.
               Return (AList.update (target e) (status\<lparr>Provider := d\<rparr>) statusMap))
           else if mType e = ''state'' then
             bind (index (data e) 0) (\<lambda>d.
               Return (AList.update (target e) (status\<lparr>State := Some (ToMachineState d)\<rparr>) statusMap))
           else Return statusMap)))"

fun statusLoop :: "entry list \<Rightarrow> statusMap \<Rightarrow> statusMap outcome" where
  "statusLoop [] statusMap = Return statusMap"
| "statusLoop (e # es) statusMap = bind (statusEntry statusMap e) (statusLoop es)"

text \<open>
  The last loop ranges over the map, in an order Go leaves unspecified: \<open>visit\<close> is the
  order in which the range statement visits the entries of the map.
\<close>

definition Status ::
  "wrapper \<Rightarrow> parser \<Rightarrow> (statusMap \<Rightarrow> statusMap) \<Rightarrow>
     event list \<times> (MachineStatus list \<times> error option) outcome" where
  "Status w parse visit =
     (case exec w [''status'', ''--machine-readable''] of
        (evs, Panic p) \<Rightarrow> (evs, Panic p)
      | (evs, Return (out, err)) \<Rightarrow>
          (if err \<noteq> None then (evs, Return ([], err))
           else (case parse out of (machineInfo, err) \<Rightarrow>
             (if err \<noteq> None then (evs, Return ([], err))
              else (case statusLoop machineInfo [] of
                  Panic p \<Rightarrow> (evs, Panic p)
                | Return statusMap \<Rightarrow> (evs, Return (map snd (visit statusMap), None)))))))"

text \<open>The distinct non-empty targets of a record sequence, in the order of first occurrence.\<close>

definition targets :: "entry list \<Rightarrow> string list" where
  "targets es = remdups (filter (\<lambda>t. t \<noteq> []) (map target es))"

text \<open>
  The index expressions \<^verbatim>\<open>entry.data[0]\<close> of the loop are in bounds for a record when
  the record is skipped or ignored, or has at least one data element.
\<close>

definition inBounds :: "entry \<Rightarrow> bool" where
  "inBounds e =
     (target e \<noteq> [] \<and> (mType e = ''provider-name'' \<or> mType e = ''state'') \<longrightarrow> 0 < length (data e))"

text \<open>The invariant of the loop: the keys are distinct, and every status carries its key as name.\<close>

definition named :: "statusMap \<Rightarrow> bool" where
  "named m = (distinct (map fst m) \<and> (\<forall>(k, s)\<in>set m. MachineStatus.Name s = k))"

subsection \<open>Version\<close>

text \<open>
  Modelled from the spec: \<^verbatim>\<open>pluckEntryData\<close> is not part of the source files. The spec
  gives its contract: the data of the first record whose type matches, and
  \<open>EntryNotFoundError\<close> with the type when no record matches.
\<close>

fun pluckEntryData :: "entry list \<Rightarrow> string \<Rightarrow> string list \<times> error option" where
  "pluckEntryData [] t = ([], Some (EntryNotFoundError t))"
| "pluckEntryData (e # es) t = (if mType e = t then (data e, None) else pluckEntryData es t)"

definition Version :: "wrapper \<Rightarrow> parser \<Rightarrow> event list \<times> (string \<times> error option) outcome" where
  "Version w parse =
     (case exec w [''version'', ''--machine-readable''] of
        (evs, Panic p) \<Rightarrow> (evs, Panic p)
      | (evs, Return (out, err)) \<Rightarrow>
          (if err \<noteq> None then (evs, Return ([], err))
           else (case parse out of (vInfo, err) \<Rightarrow>
             (if err \<noteq> None then (evs, Return ([], err))
              else (case pluckEntryData vInfo ''version-installed'' of (plucked, err) \<Rightarrow>
                (if err \<noteq> None then (evs, Return ([], err))
                 else (evs, bind (index plucked 0) (\<lambda>d. Return (d, err)))))))))"

subsection \<open>PluginList\<close>

text \<open>
  The regular expression of \<^verbatim>\<open>PluginList\<close> is
  \<^verbatim>\<open>^([\w-]+)\s\((.*)%!\(VAGRANT_COMMA\)\s([a-z]+)\)$\<close>.
  In Go's syntax \<^verbatim>\<open>\w\<close> is \<^verbatim>\<open>[0-9A-Za-z_]\<close>, \<^verbatim>\<open>\s\<close> is tab, line feed, form feed,
  carriage return or space, the dot is every character but the line feed, and
  \<^verbatim>\<open>^\<close> and \<^verbatim>\<open>$\<close> are the two ends of the text.
\<close>

definition between :: "char \<Rightarrow> char \<Rightarrow> char \<Rightarrow> bool" where
  "between lo hi c = ((of_char lo :: nat) \<le> of_char c \<and> (of_char c :: nat) \<le> of_char hi)"

definition isWord :: "char \<Rightarrow> bool" where
  "isWord c = (between CHR ''0'' CHR ''9'' c \<or> between CHR ''A'' CHR ''Z'' c
              \<or> between CHR ''a'' CHR ''z'' c \<or> c = CHR ''_'')"

definition isNameChar :: "char \<Rightarrow> bool" where
  "isNameChar c = (isWord c \<or> c = CHR ''-'')"

definition isSpace :: "char \<Rightarrow> bool" where
  "isSpace c = (c = CHR 0x09 \<or> c = CHR 0x0A \<or> c = CHR 0x0C \<or> c = CHR 0x0D \<or> c = CHR '' '')"

definition isLower :: "char \<Rightarrow> bool" where
  "isLower c = between CHR ''a'' CHR ''z'' c"

definition commaToken :: string where
  "commaToken = ''%!(VAGRANT_COMMA)''"

text \<open>
  The text matches when it is a name, a space, an opening parenthesis, a version, the
  comma token, a space, a location and a closing parenthesis. The name is read from the
  left and the location from the right; \<open>submatch\<close> gives the three groups.
\<close>

definition submatch :: "string \<Rightarrow> (string \<times> string \<times> string) option" where
  "submatch s =
     (let name = takeWhile isNameChar s in
      case dropWhile isNameChar s of
        sp # par # body \<Rightarrow>
          (case rev body of
             close # r \<Rightarrow>
               (let loc = takeWhile isLower r in
                case dropWhile isLower r of
                  sp2 # r2 \<Rightarrow>
                    (if name \<noteq> [] \<and> isSpace sp \<and> par = CHR ''('' \<and> close = CHR '')''
                        \<and> loc \<noteq> [] \<and> isSpace sp2 \<and> prefix (rev commaToken) r2
                        \<and> CHR 0x0A \<notin> set (drop (length commaToken) r2)
                     then Some (name, rev (drop (length commaToken) r2), rev loc)
                     else None)
                | [] \<Rightarrow> None)
           | [] \<Rightarrow> None)
      | _ \<Rightarrow> None)"

text \<open>
  \<^verbatim>\<open>pluginMetadataExtractor.FindAllStringSubmatch(s, -1)\<close>: the expression is anchored at
  both ends, so there is at most one match, with the whole text and the three groups.
\<close>

definition FindAllStringSubmatch :: "string \<Rightarrow> string list list" where
  "FindAllStringSubmatch s =
     (case submatch s of None \<Rightarrow> [] | Some (n, v, l) \<Rightarrow> [[s, n, v, l]])"

text \<open>The body of the loop over the records, for one record.\<close>

definition pluginEntry :: "Plugin list \<Rightarrow> entry \<Rightarrow> Plugin list outcome" where
  "pluginEntry plugins e =
     (if mType e = ''ui'' then
        bind (index (data e) 1) (\<lambda>d.
        bind (index (FindAllStringSubmatch d) 0) (\<lambda>m.
          (let matches = drop 1 m in
           bind (index matches 0) (\<lambda>n.
           bind (index matches 1) (\<lambda>v.
           bind (index matches 2) (\<lambda>l.
             Return (plugins @ [\<lparr>Plugin.Name = n, Plugin.Version = v, Plugin.Location = l\<rparr>])))))))
      else Return plugins)"

fun pluginLoop :: "entry list \<Rightarrow> Plugin list \<Rightarrow> Plugin list outcome" where
  "pluginLoop [] plugins = Return plugins"
| "pluginLoop (e # es) plugins = bind (pluginEntry plugins e) (pluginLoop es)"

definition PluginList :: "wrapper \<Rightarrow> parser \<Rightarrow> event list \<times> (Plugin list \<times> error option) outcome" where
  "PluginList w parse =
     (case exec w [''plugin'', ''list'', ''--machine-readable''] of
        (evs, Panic p) \<Rightarrow> (evs, Panic p)
      | (evs, Return (out, err)) \<Rightarrow>
          (if err \<noteq> None then (evs, Return ([], err))
           else (case parse out of (pluginInfo, err) \<Rightarrow>
             (if err \<noteq> None then (evs, Return ([], err))
              else (case pluginLoop pluginInfo [] of
                  Panic p \<Rightarrow> (evs, Panic p)
                | Return plugins \<Rightarrow> (evs, Return (plugins, err)))))))"

text \<open>
  The plugin listing in the spec's words: only records of type "ui" are candidates, the
  second data field is matched against the pattern, and a record that does not match is
  skipped. \<open>pluginOf\<close> is the plugin of one record, if it has one; \<open>extractPlugins\<close> is
  the listing that skips the others.
\<close>

definition pluginOf :: "entry \<Rightarrow> Plugin option" where
  "pluginOf e =
     (case index (data e) 1 of
        Panic p \<Rightarrow> None
      | Return d \<Rightarrow>
          (case submatch d of
             None \<Rightarrow> None
           | Some (n, v, l) \<Rightarrow> Some \<lparr>Plugin.Name = n, Plugin.Version = v, Plugin.Location = l\<rparr>))"

definition extractPlugins :: "entry list \<Rightarrow> Plugin list" where
  "extractPlugins es = List.map_filter pluginOf (filter (\<lambda>e. mType e = ''ui'') es)"

section \<open>The machine-readable format\<close>

text \<open>
  Modelled from the spec: \<^verbatim>\<open>parseMachineReadable\<close> is not part of the source files.
  The spec describes it: the input is split into lines at line feeds, and a final empty
  line is skipped; a line is \<^verbatim>\<open>timestamp,target,type,data\<close>, where the data is
  everything after the third comma, and a line with fewer than three commas fails with
  \<open>MalformedRecordError\<close>; the timestamp is parsed as an integer, and a failure to parse it
  is an error; an error aborts the whole parse; a data field that is empty gives an empty
  data sequence.

  The data carries two escape tokens, one for a comma and one for a line feed, reversed by
  substring replacement. The comma token is the one \<^verbatim>\<open>PluginList\<close> names. The spec
  does not name the token of the line feed: it is the parameter \<open>nl\<close>.

  The spec asks both that the tokens be replaced before the data is split at commas, and
  that an escaped comma never splits a field. \<open>decodeData\<close> splits the data at its
  commas, which are the structural ones, and then decodes every piece, so that a decoded
  field may contain commas and line feeds; \<open>decodeThenSplit\<close> is the other order.
\<close>

fun splitOn :: "char \<Rightarrow> string \<Rightarrow> string list" where
  "splitOn sep [] = [[]]"
| "splitOn sep (c # cs) =
     (if c = sep then [] # splitOn sep cs
      else (case splitOn sep cs of [] \<Rightarrow> [[c]] | f # fs \<Rightarrow> (c # f) # fs))"

definition linesOf :: "string \<Rightarrow> string list" where
  "linesOf raw = (let ls = splitOn (CHR 0x0A) raw in if last ls = [] then butlast ls else ls)"

definition cut :: "char \<Rightarrow> string \<Rightarrow> (string \<times> string) option" where
  "cut sep s =
     (case dropWhile (\<lambda>c. c \<noteq> sep) s of
        [] \<Rightarrow> None
      | c # rest \<Rightarrow> Some (takeWhile (\<lambda>c. c \<noteq> sep) s, rest))"

definition isDigit :: "char \<Rightarrow> bool" where
  "isDigit c = between CHR ''0'' CHR ''9'' c"

definition parseNat :: "string \<Rightarrow> nat option" where
  "parseNat s =
     (if s \<noteq> [] \<and> list_all isDigit s
      then Some (foldl (\<lambda>n c. 10 * n + (of_char c - 48)) 0 s) else None)"

definition parseInt :: "string \<Rightarrow> int option" where
  "parseInt s =
     (case s of
        [] \<Rightarrow> None
      | c # cs \<Rightarrow>
          (if c = CHR ''-'' then map_option (\<lambda>n. - int n) (parseNat cs)
           else if c = CHR ''+'' then map_option int (parseNat cs)
           else map_option int (parseNat s)))"

function replaceAll :: "string \<Rightarrow> string \<Rightarrow> string \<Rightarrow> string" where
  "replaceAll old new [] = []"
| "replaceAll old new (c # cs) =
     (if old \<noteq> [] \<and> prefix old (c # cs)
      then new @ replaceAll old new (drop (length old) (c # cs))
      else c # replaceAll old new cs)"
  by pat_completeness auto
termination
  by (relation "measure (\<lambda>(old, new, s). length s)") auto

declare replaceAll.simps [simp del]

definition decode :: "string \<Rightarrow> string \<Rightarrow> string" where
  "decode nl f = replaceAll nl [CHR 0x0A] (replaceAll commaToken '','' f)"

definition decodeData :: "string \<Rightarrow> string \<Rightarrow> string list" where
  "decodeData nl raw = (if raw = [] then [] else map (decode nl) (splitOn CHR '','' raw))"

definition decodeThenSplit :: "string \<Rightarrow> string \<Rightarrow> string list" where
  "decodeThenSplit nl raw = (if raw = [] then [] else splitOn CHR '','' (decode nl raw))"

text \<open>
  The stages of the parser, in the order of the spec: the fields of every line are
  isolated, then the data is decoded and the timestamp parsed. Every stage goes through
  the lines in order and stops at the first line that fails.
\<close>

type_synonym fields = "string \<times> string \<times> string \<times> string"

definition isolate :: "string \<Rightarrow> error + fields" where
  "isolate line =
     (case cut CHR '','' line of
        None \<Rightarrow> Inl MalformedRecordError
      | Some (ts, rest1) \<Rightarrow>
          (case cut CHR '','' rest1 of
             None \<Rightarrow> Inl MalformedRecordError
           | Some (tgt, rest2) \<Rightarrow>
               (case cut CHR '','' rest2 of
                  None \<Rightarrow> Inl MalformedRecordError
                | Some (ty, raw) \<Rightarrow> Inr (ts, tgt, ty, raw))))"

fun isolateAll :: "string list \<Rightarrow> error + fields list" where
  "isolateAll [] = Inr []"
| "isolateAll (l # ls) =
     (case isolate l of
        Inl e \<Rightarrow> Inl e
      | Inr f \<Rightarrow> (case isolateAll ls of Inl e \<Rightarrow> Inl e | Inr fs \<Rightarrow> Inr (f # fs)))"

definition toEntry :: "string \<Rightarrow> fields \<Rightarrow> error + entry" where
  "toEntry nl f =
     (case f of (ts, tgt, ty, raw) \<Rightarrow>
        (case parseInt ts of
           None \<Rightarrow> Inl (TimestampError ts)
         | Some t \<Rightarrow> Inr \<lparr>timestamp = t, target = tgt, mType = ty, data = decodeData nl raw\<rparr>))"

fun toEntries :: "string \<Rightarrow> fields list \<Rightarrow> error + entry list" where
  "toEntries nl [] = Inr []"
| "toEntries nl (f # fs) =
     (case toEntry nl f of
        Inl e \<Rightarrow> Inl e
      | Inr r \<Rightarrow> (case toEntries nl fs of Inl e \<Rightarrow> Inl e | Inr rs \<Rightarrow> Inr (r # rs)))"

definition parseMachineReadable :: "string \<Rightarrow> parser" where
  "parseMachineReadable nl raw =
     (case isolateAll (linesOf raw) of
        Inl e \<Rightarrow> ([], Some e)
      | Inr fs \<Rightarrow> (case toEntries nl fs of Inl e \<Rightarrow> ([], Some e) | Inr es \<Rightarrow> (es, None)))"

definition commas :: "string \<Rightarrow> nat" where
  "commas line = length (filter (\<lambda>c. c = CHR '','') line)"

text \<open>
  The encoding that the tokens stand for: every comma of a field becomes the comma token
  and every line feed the other token, and the fields are joined with commas.
  \<open>encodeNl\<close> is the encoding of the line feeds alone. \<open>tokenOk\<close> says that the token of
  the line feed is reserved: it is not empty, it holds no comma, line feed or percent
  sign, and its first character occurs neither again in it nor in the comma token after
  the percent sign. The backslash followed by \<open>n\<close> is such a token.
\<close>

definition encode :: "string \<Rightarrow> string \<Rightarrow> string" where
  "encode nl f =
     concat (map (\<lambda>c. if c = CHR '','' then commaToken else if c = CHR 0x0A then nl else [c]) f)"

definition encodeData :: "string \<Rightarrow> string list \<Rightarrow> string" where
  "encodeData nl fs = Join (map (encode nl) fs) '',''"



definition backslashN :: string where
  "backslashN = [CHR 0x5C, CHR ''n'']"

section \<open>Example values\<close>

text \<open>A wrapper whose runner succeeds with a fixed output, and a parser with a fixed result.\<close>

definition fixedWrapper :: "string \<Rightarrow> wrapper" where
  "fixedWrapper out = \<lparr>executable = ''vagrant'', runner = (\<lambda>cmd args. Return (out, None))\<rparr>"

definition fixedParser :: "entry list \<Rightarrow> parser" where
  "fixedParser es = (\<lambda>out. (es, None))"

text \<open>
  The records of the lines \<^verbatim>\<open>1700000000,default,state,running\<close>,
  \<^verbatim>\<open>1700000000,default,provider-name,virtualbox\<close> and
  \<^verbatim>\<open>1700000000,,ui,info\<close>, and the record of a state line that carries no data.
\<close>

definition statusRecords :: "entry list" where
  "statusRecords =
     [\<lparr>timestamp = 1700000000, target = ''default'', mType = ''state'', data = [''running'']\<rparr>,
      \<lparr>timestamp = 1700000000, target = ''default'', mType = ''provider-name'', data = [''virtualbox'']\<rparr>,
      \<lparr>timestamp = 1700000000, target = [], mType = ''ui'', data = [''info'']\<rparr>]"

definition versionRecords :: "entry list" where
  "versionRecords =
     [\<lparr>timestamp = 1700000000, target = [], mType = ''ui'', data = [''info'', ''Installed version: 2.3.0'']\<rparr>,
      \<lparr>timestamp = 1700000000, target = [], mType = ''version-installed'', data = [''2.3.0'']\<rparr>,
      \<lparr>timestamp = 1700000001, target = [], mType = ''version-installed'', data = [''9.9.9'']\<rparr>]"

definition stateWithoutData :: "entry list" where
  "stateWithoutData =
     [\<lparr>timestamp = 1700000000, target = ''default'', mType = ''state'', data = []\<rparr>]"

text \<open>
  The records of a plugin listing with one installed plugin, and of a listing whose first
  line is not the description of a plugin.
\<close>

definition pluginRecords :: "entry list" where
  "pluginRecords =
     [\<lparr>timestamp = 1700000000, target = [], mType = ''ui'',
        data = [''info'', ''vagrant-vbguest (0.19.0%!(VAGRANT_COMMA) global)'']\<rparr>,
      \<lparr>timestamp = 1700000000, target = [], mType = ''plugin-name'', data = [''vagrant-vbguest'']\<rparr>]"

definition unmatchedPluginRecords :: "entry list" where
  "unmatchedPluginRecords =
     [\<lparr>timestamp = 1700000000, target = [], mType = ''ui'', data = [''info'', ''No plugins installed.'']\<rparr>,
      \<lparr>timestamp = 1700000000, target = [], mType = ''ui'',
        data = [''info'', ''vagrant-vbguest (0.19.0%!(VAGRANT_COMMA) global)'']\<rparr>]"

text \<open>
  Outputs of the command: two status lines, and a line with fewer than three commas
  after a line whose timestamp is not a number.
\<close>

definition statusOutput :: string where
  "statusOutput =
     ''1700000000,default,state,running'' @ [CHR 0x0A] @
     ''1700000000,default,provider-name,virtualbox'' @ [CHR 0x0A]"

definition shortLineAfterBadTimestamp :: string where
  "shortLineAfterBadTimestamp = ''x,,ui,info'' @ [CHR 0x0A] @ ''bad'' @ [CHR 0x0A]"

section \<open>Running a command\<close>

lemma exec_Return:
  "runner w (executable w) args = Return r \<Longrightarrow> \<exists>evs. exec w args = (evs, Return r)"
  by (cases r) (simp add: exec_def Let_def)

section \<open>The status fold\<close>

lemma map_of_fetch:
  "fetch m t = (st, m1) \<Longrightarrow> map_of m1 = (map_of m)(t \<mapsto> st)"
  by (auto simp: fetch_def update_conv' Let_def split: option.splits)

lemma fetch_present: "t \<in> dom (map_of m) \<Longrightarrow> snd (fetch m t) = m"
  by (auto simp: fetch_def)

text \<open>
  C3: for a record with a non-empty target, where \<open>fst (fetch m (target e))\<close> is the
  status of the target, fetched from the map or created with only its name: a record of
  type "provider-name" whose \<^verbatim>\<open>data[0]\<close> is \<open>d\<close> sets the provider of that status to \<open>d\<close>,
  a record of type "state" sets its state to \<open>ToMachineState d\<close>, and a record of any
  other type leaves the status as it is (and the whole map, when the target is known).
  The entries of the other targets never change.
\<close>

theorem statusEntry_switch:
  assumes "target e \<noteq> []"
  shows "(mType e = ''provider-name'' \<longrightarrow> index (data e) 0 = Return d \<longrightarrow>
           (\<exists>m'. statusEntry m e = Return m'
               \<and> map_of m' = (map_of m)(target e \<mapsto> (fst (fetch m (target e)))\<lparr>Provider := d\<rparr>)))
       \<and> (mType e = ''state'' \<longrightarrow> index (data e) 0 = Return d \<longrightarrow>
           (\<exists>m'. statusEntry m e = Return m'
               \<and> map_of m' = (map_of m)(target e \<mapsto> (fst (fetch m (target e)))\<lparr>State := Some (ToMachineState d)\<rparr>)))
       \<and> (mType e \<noteq> ''provider-name'' \<longrightarrow> mType e \<noteq> ''state'' \<longrightarrow>
           (\<exists>m'. statusEntry m e = Return m'
               \<and> map_of m' = (map_of m)(target e \<mapsto> fst (fetch m (target e)))
               \<and> (target e \<in> dom (map_of m) \<longrightarrow> m' = m)))"
proof (cases "fetch m (target e)")
  case (Pair st m1)
  have m1: "map_of m1 = (map_of m)(target e \<mapsto> st)"
    using Pair by (rule map_of_fetch)
  have same: "target e \<in> dom (map_of m) \<Longrightarrow> m1 = m"
    using fetch_present [of "target e" m] Pair by simp
  show ?thesis
    using assms Pair m1 same
    by (simp add: statusEntry_def bind_def update_conv')
qed

theorem statusEntry_switch_witness:
  "\<exists>m'. statusEntry [(''default'', \<lparr>Name = ''default'', Provider = ''virtualbox'', State = None\<rparr>)]
           \<lparr>timestamp = 1, target = ''default'', mType = ''state'', data = [''running'']\<rparr> = Return m'
      \<and> map_of m' ''default'' = Some \<lparr>Name = ''default'', Provider = ''virtualbox'', State = Some Running\<rparr>"
proof -
  let ?m = "[(''default'', \<lparr>Name = ''default'', Provider = ''virtualbox'', State = None\<rparr>)]"
  let ?e = "\<lparr>timestamp = 1, target = ''default'', mType = ''state'', data = [''running'']\<rparr>"
  have t: "target ?e \<noteq> []" by simp
  have i: "index (data ?e) 0 = Return ''running''" by (simp add: index_def)
  from statusEntry_switch [OF t, of "''running''" ?m] i
  obtain m' where "statusEntry ?m ?e = Return m'"
    and "map_of m' = (map_of ?m)(target ?e \<mapsto> (fst (fetch ?m (target ?e)))\<lparr>State := Some (ToMachineState ''running'')\<rparr>)"
    by auto
  then show ?thesis
    by (auto simp: fetch_def ToMachineState_def stateNames_def)
qed

section \<open>The index expressions of the status fold\<close>

lemma statusEntry_returns:
  "inBounds e \<Longrightarrow> \<exists>m'. statusEntry m e = Return m'"
  by (cases "fetch m (target e)") (auto simp: statusEntry_def inBounds_def bind_def index_def)

lemma statusLoop_returns:
  "\<forall>e\<in>set es. inBounds e \<Longrightarrow> \<exists>m'. statusLoop es m = Return m'"
proof (induction es arbitrary: m)
  case Nil
  then show ?case by simp
next
  case (Cons e es)
  then obtain m1 where "statusEntry m e = Return m1"
    using statusEntry_returns [of e m] by auto
  then show ?case using Cons by (simp add: bind_def)
qed

section \<open>The entries of Status\<close>

lemma set_update_subset: "set (AList.update k v al) \<subseteq> insert (k, v) (set al)"
  by (induction al) auto

lemma keys_update: "fst ` set (AList.update k v al) = insert k (fst ` set al)"
  by (simp add: dom_update)

lemma named_update:
  assumes "named m" "MachineStatus.Name s = k"
  shows "named (AList.update k s m) \<and> fst ` set (AList.update k s m) = insert k (fst ` set m)"
proof -
  have "named (AList.update k s m)"
    using assms set_update_subset [of k s m] by (auto simp: named_def distinct_update)
  then show ?thesis by (simp add: keys_update)
qed

lemma fetch_named:
  assumes "named m" "fetch m t = (st, m1)"
  shows "named m1 \<and> MachineStatus.Name st = t \<and> fst ` set m1 = insert t (fst ` set m)"
proof (cases "map_of m t")
  case None
  then have "st = \<lparr>MachineStatus.Name = t, Provider = [], State = None\<rparr>" and "m1 = AList.update t st m"
    using assms(2) by (auto simp: fetch_def Let_def)
  then show ?thesis using named_update [OF assms(1), of st t] by simp
next
  case (Some s)
  then have "(t, s) \<in> set m" by (rule map_of_SomeD)
  then show ?thesis using assms Some by (force simp: fetch_def named_def)
qed

lemma statusEntry_named:
  assumes "named m" "statusEntry m e = Return m'"
  shows "named m' \<and> fst ` set m' = fst ` set m \<union> (if target e = [] then {} else {target e})"
proof (cases "target e = []")
  case True
  then show ?thesis using assms by (simp add: statusEntry_def)
next
  case False
  obtain st m1 where f: "fetch m (target e) = (st, m1)" by (cases "fetch m (target e)")
  from fetch_named [OF assms(1) f]
  have n1: "named m1" and nm: "MachineStatus.Name st = target e"
    and k1: "fst ` set m1 = insert (target e) (fst ` set m)" by auto
  have upd: "named (AList.update (target e) s m1) \<and>
      fst ` set (AList.update (target e) s m1) = insert (target e) (fst ` set m)"
    if "MachineStatus.Name s = target e" for s
    using named_update [OF n1 that] k1 by simp
  have "named m' \<and> fst ` set m' = insert (target e) (fst ` set m)"
  proof (cases "mType e = ''provider-name''")
    case True
    then obtain d where "m' = AList.update (target e) (st\<lparr>Provider := d\<rparr>) m1"
      using assms(2) False f by (auto simp: statusEntry_def bind_def split: outcome.splits)
    then show ?thesis using upd [of "st\<lparr>Provider := d\<rparr>"] nm by simp
  next
    case notp: False
    show ?thesis
    proof (cases "mType e = ''state''")
      case True
      then obtain d where "m' = AList.update (target e) (st\<lparr>State := Some (ToMachineState d)\<rparr>) m1"
        using assms(2) False f notp by (auto simp: statusEntry_def bind_def split: outcome.splits)
      then show ?thesis using upd [of "st\<lparr>State := Some (ToMachineState d)\<rparr>"] nm by simp
    next
      case False
      then have "m' = m1"
        using assms(2) \<open>target e \<noteq> []\<close> f notp by (simp add: statusEntry_def)
      then show ?thesis using n1 k1 by simp
    qed
  qed
  then show ?thesis using False by simp
qed

lemma statusLoop_named:
  "named m \<Longrightarrow> statusLoop es m = Return m' \<Longrightarrow>
     named m' \<and> fst ` set m' = fst ` set m \<union> set (targets es)"
proof (induction es arbitrary: m)
  case Nil
  then show ?case by (simp add: targets_def)
next
  case (Cons e es)
  from Cons.prems(2) obtain m1 where s1: "statusEntry m e = Return m1" and s2: "statusLoop es m1 = Return m'"
    by (auto simp: bind_def split: outcome.splits)
  from statusEntry_named [OF Cons.prems(1) s1]
  have "named m1" and k: "fst ` set m1 = fst ` set m \<union> (if target e = [] then {} else {target e})"
    by auto
  from Cons.IH [OF \<open>named m1\<close> s2] k show ?case
    by (auto simp: targets_def)
qed

lemma statusEntry_empty_target: "target e = [] \<Longrightarrow> statusEntry m e = Return m"
  by (simp add: statusEntry_def)

lemma statusLoop_filter:
  "statusLoop (filter (\<lambda>e. target e \<noteq> []) es) m = statusLoop es m"
  by (induction es arbitrary: m) (simp_all add: statusEntry_empty_target bind_def cong: outcome.case_cong)

lemma distinct_targets: "distinct (targets es)"
  by (simp add: targets_def)

lemma named_names:
  assumes "named m" "mset v = mset m"
  shows "map MachineStatus.Name (map snd v) = map fst v"
proof -
  have "set v = set m" using assms(2) by (rule mset_eq_setD)
  then show ?thesis using assms(1) by (auto simp: named_def)
qed

lemma Status_Return:
  assumes run: "runner w (executable w) [''status'', ''--machine-readable''] = Return (out, None)"
    and parse: "parse out = (es, None)"
    and loop: "statusLoop es [] = Return m"
  shows "snd (Status w parse visit) = Return (map snd (visit m), None)"
proof -
  obtain evs where "exec w [''status'', ''--machine-readable''] = (evs, Return (out, None))"
    using exec_Return [OF run] by blast
  then show ?thesis using parse loop by (simp add: Status_def)
qed

lemma Status_Panic:
  assumes run: "runner w (executable w) [''status'', ''--machine-readable''] = Return (out, None)"
    and parse: "parse out = (es, None)"
    and loop: "statusLoop es [] = Panic p"
  shows "snd (Status w parse visit) = Panic p"
proof -
  obtain evs where "exec w [''status'', ''--machine-readable''] = (evs, Return (out, None))"
    using exec_Return [OF run] by blast
  then show ?thesis using parse loop by (simp add: Status_def)
qed

section \<open>Status as a whole\<close>

text \<open>
  C10: when every record with a non-empty target and type "provider-name" or "state" has
  at least one data element, every \<^verbatim>\<open>data[0]\<close> of the fold is in bounds: the index
  expression returns the first element, the loop returns a map from every starting map
  and never panics, and so does \<open>Status\<close> once the command and the parser succeeded.
\<close>

theorem data_index_in_bounds:
  assumes "\<forall>e\<in>set es. inBounds e"
  shows "(\<forall>e\<in>set es. target e \<noteq> [] \<and> (mType e = ''provider-name'' \<or> mType e = ''state'')
              \<longrightarrow> index (data e) 0 = Return (data e ! 0))
       \<and> (\<exists>m'. statusLoop es m = Return m')
       \<and> (\<forall>p. statusLoop es m \<noteq> Panic p)
       \<and> (runner w (executable w) [''status'', ''--machine-readable''] = Return (out, None)
            \<longrightarrow> parse out = (es, None) \<longrightarrow> (\<exists>sts. snd (Status w parse visit) = Return (sts, None)))"
proof -
  obtain m' where m': "statusLoop es m = Return m'"
    using statusLoop_returns [OF assms] by blast
  obtain m0 where m0: "statusLoop es [] = Return m0"
    using statusLoop_returns [OF assms] by blast
  have "\<forall>e\<in>set es. target e \<noteq> [] \<and> (mType e = ''provider-name'' \<or> mType e = ''state'')
              \<longrightarrow> index (data e) 0 = Return (data e ! 0)"
    using assms by (auto simp: inBounds_def index_def)
  moreover have "runner w (executable w) [''status'', ''--machine-readable''] = Return (out, None)
            \<longrightarrow> parse out = (es, None) \<longrightarrow> (\<exists>sts. snd (Status w parse visit) = Return (sts, None))"
    using Status_Return [of w out parse es m0 visit] m0 by blast
  ultimately show ?thesis using m' by simp
qed

theorem data_index_in_bounds_witness:
  "\<exists>m'. statusLoop statusRecords [] = Return m'"
proof -
  have "\<forall>e\<in>set statusRecords. inBounds e"
    by (simp add: statusRecords_def inBounds_def)
  from data_index_in_bounds [OF this] show ?thesis by blast
qed

text \<open>
  C2, as amended: when the command and the parser succeed, every record with a non-empty
  target and type "provider-name" or "state" has at least one data element, and the range
  statement visits every entry of the map once, \<open>Status\<close> returns exactly one status for
  each distinct non-empty target: as many entries as there are such targets, with distinct
  names, the names being these targets. Records with an empty target contribute nothing:
  the fold over all records is the fold over those with a non-empty target.
\<close>

theorem Status_entries:
  assumes run: "runner w (executable w) [''status'', ''--machine-readable''] = Return (out, None)"
    and parse: "parse out = (es, None)"
    and bounds: "\<forall>e\<in>set es. inBounds e"
    and visit: "\<forall>m. mset (visit m) = mset m"
  shows "\<exists>sts. snd (Status w parse visit) = Return (sts, None)
            \<and> length sts = length (targets es)
            \<and> distinct (map MachineStatus.Name sts)
            \<and> set (map MachineStatus.Name sts) = set (targets es)
            \<and> statusLoop (filter (\<lambda>e. target e \<noteq> []) es) [] = statusLoop es []"
proof -
  obtain m where loop: "statusLoop es [] = Return m"
    using statusLoop_returns [OF bounds] by blast
  have "named []" by (simp add: named_def)
  from statusLoop_named [OF this loop]
  have n: "named m" and k: "fst ` set m = set (targets es)" by auto
  let ?sts = "map snd (visit m)"
  have v: "mset (visit m) = mset m" using visit by simp
  have names: "map MachineStatus.Name ?sts = map fst (visit m)"
    using named_names [OF n v] .
  have perm: "mset (map fst (visit m)) = mset (map fst m)"
    using v by (metis mset_map)
  have d: "distinct (map fst (visit m))"
    using n perm by (metis named_def mset_eq_imp_distinct_iff)
  have s: "set (map fst (visit m)) = set (targets es)"
    using perm k by (metis mset_eq_setD set_map)
  have "length ?sts = length (map fst (visit m))" by simp
  also have "\<dots> = card (set (targets es))"
    using d s distinct_card by metis
  also have "\<dots> = length (targets es)"
    using distinct_card [OF distinct_targets] .
  finally have l: "length ?sts = length (targets es)" .
  have "snd (Status w parse visit) = Return (?sts, None)"
    using run parse loop by (rule Status_Return)
  moreover have "distinct (map MachineStatus.Name ?sts)"
    by (simp only: names d)
  moreover have "set (map MachineStatus.Name ?sts) = set (targets es)"
    by (simp only: names s)
  ultimately show ?thesis
    using l statusLoop_filter [of es "[]"] by blast
qed

theorem Status_entries_witness:
  "\<exists>sts. snd (Status (fixedWrapper ''out'') (fixedParser statusRecords) rev) = Return (sts, None)
      \<and> length sts = 1 \<and> set (map MachineStatus.Name sts) = {''default''}"
proof -
  have b: "\<forall>e\<in>set statusRecords. inBounds e"
    by (simp add: statusRecords_def inBounds_def)
  have r: "runner (fixedWrapper ''out'') (executable (fixedWrapper ''out'')) [''status'', ''--machine-readable'']
             = Return (''out'', None)"
    by (simp add: fixedWrapper_def)
  have p: "fixedParser statusRecords ''out'' = (statusRecords, None)"
    by (simp add: fixedParser_def)
  have v: "\<forall>m::statusMap. mset (rev m) = mset m" by simp
  have t: "targets statusRecords = [''default'']"
    by (simp add: targets_def statusRecords_def)
  from Status_entries [of "fixedWrapper ''out''" "''out''" "fixedParser statusRecords" statusRecords rev] r p b v
  show ?thesis
    by (auto simp: t)
qed

text \<open>
  C2 as stated fails: the record sequence of a single state line without data has one
  non-empty target, and \<open>Status\<close> returns no entries, since \<^verbatim>\<open>entry.data[0]\<close> panics.
\<close>

theorem Status_entries_counterexample:
  "targets stateWithoutData = [''default'']
   \<and> snd (Status (fixedWrapper ''1700000000,default,state,'') (fixedParser stateWithoutData) id)
       = Panic (IndexOutOfRange 0 0)"
proof -
  have "statusLoop stateWithoutData [] = Panic (IndexOutOfRange 0 0)"
    by (simp add: stateWithoutData_def statusEntry_def fetch_def bind_def index_def)
  then have "snd (Status (fixedWrapper ''1700000000,default,state,'') (fixedParser stateWithoutData) id)
       = Panic (IndexOutOfRange 0 0)"
    by (intro Status_Panic) (simp_all add: fixedWrapper_def fixedParser_def)
  then show ?thesis by (simp add: targets_def stateWithoutData_def)
qed

section \<open>The state of a machine\<close>

text \<open>
  C6: \<open>ToMachineState\<close> is a function from every string to a state: each of the
  lifecycle state strings maps to its variant, every other string maps to \<open>Unknown\<close>, and
  there is no error result.
\<close>

theorem ToMachineState_total:
  "ToMachineState ''running'' = Running
   \<and> ToMachineState ''poweroff'' = PowerOff
   \<and> ToMachineState ''saved'' = Saved
   \<and> ToMachineState ''aborted'' = Aborted
   \<and> ToMachineState ''not_created'' = NotCreated
   \<and> (s \<notin> fst ` set stateNames \<longrightarrow> ToMachineState s = Unknown)
   \<and> (\<forall>(name, st)\<in>set stateNames. ToMachineState name = st)"
  by (auto simp: ToMachineState_def stateNames_def map_of_eq_None_iff [symmetric])

theorem ToMachineState_total_witness:
  "ToMachineState ''stopped'' = Unknown"
  using ToMachineState_total [of "''stopped''"] by (simp add: stateNames_def)

section \<open>The installed version\<close>

lemma pluckEntryData_find:
  "pluckEntryData es t =
     (case find (\<lambda>e. mType e = t) es of
        None \<Rightarrow> ([], Some (EntryNotFoundError t))
      | Some e \<Rightarrow> (data e, None))"
  by (induction es) auto

lemma Version_plucked:
  assumes run: "runner w (executable w) [''version'', ''--machine-readable''] = Return (out, None)"
    and parse: "parse out = (es, None)"
  shows "snd (Version w parse) =
     (case pluckEntryData es ''version-installed'' of
        (ds, None) \<Rightarrow> bind (index ds 0) (\<lambda>d. Return (d, None))
      | (ds, Some err) \<Rightarrow> Return ([], Some err))"
proof -
  obtain evs where "exec w [''version'', ''--machine-readable''] = (evs, Return (out, None))"
    using exec_Return [OF run] by blast
  then show ?thesis using parse by (auto simp: Version_def split: prod.splits option.splits)
qed

text \<open>
  C4: \<open>pluckEntryData\<close> returns the data of the first record, in the order of the
  sequence, whose type is the requested one, and fails with \<open>EntryNotFoundError\<close> of that
  type exactly when no record has the type. When the command and the parser succeed,
  \<open>Version\<close> returns \<^verbatim>\<open>data[0]\<close> of the data found for "version-installed", and the
  lookup's error when there is none.
\<close>

theorem pluckEntryData_first_match:
  "pluckEntryData es t =
     (case find (\<lambda>e. mType e = t) es of
        None \<Rightarrow> ([], Some (EntryNotFoundError t))
      | Some e \<Rightarrow> (data e, None))
   \<and> (mType e = t \<longrightarrow> (\<forall>x\<in>set before. mType x \<noteq> t) \<longrightarrow> pluckEntryData (before @ e # after) t = (data e, None))
   \<and> (snd (pluckEntryData es t) = Some (EntryNotFoundError t) \<longleftrightarrow> (\<forall>x\<in>set es. mType x \<noteq> t))
   \<and> (snd (pluckEntryData es t) = None \<longleftrightarrow> (\<exists>x\<in>set es. mType x = t))
   \<and> (runner w (executable w) [''version'', ''--machine-readable''] = Return (out, None) \<longrightarrow> parse out = (es, None) \<longrightarrow>
        snd (Version w parse) =
          (case pluckEntryData es ''version-installed'' of
             (ds, None) \<Rightarrow> bind (index ds 0) (\<lambda>d. Return (d, None))
           | (ds, Some err) \<Rightarrow> Return ([], Some err))
      \<and> (pluckEntryData es ''version-installed'' = (ds, None) \<longrightarrow> index ds 0 = Return d \<longrightarrow>
            snd (Version w parse) = Return (d, None))
      \<and> ((\<forall>x\<in>set es. mType x \<noteq> ''version-installed'') \<longrightarrow>
            snd (Version w parse) = Return ([], Some (EntryNotFoundError ''version-installed''))))"
proof -
  have first: "mType e = t \<longrightarrow> (\<forall>x\<in>set before. mType x \<noteq> t) \<longrightarrow> pluckEntryData (before @ e # after) t = (data e, None)"
    by (induction before) auto
  have none: "snd (pluckEntryData es t) = Some (EntryNotFoundError t) \<longleftrightarrow> (\<forall>x\<in>set es. mType x \<noteq> t)"
    by (induction es) auto
  have some: "snd (pluckEntryData es t) = None \<longleftrightarrow> (\<exists>x\<in>set es. mType x = t)"
    by (induction es) auto
  have nf: "(\<forall>x\<in>set es. mType x \<noteq> t) \<Longrightarrow> pluckEntryData es t = ([], Some (EntryNotFoundError t))" for t
    by (induction es) auto
  have v: "runner w (executable w) [''version'', ''--machine-readable''] = Return (out, None) \<longrightarrow> parse out = (es, None) \<longrightarrow>
        snd (Version w parse) =
          (case pluckEntryData es ''version-installed'' of
             (ds, None) \<Rightarrow> bind (index ds 0) (\<lambda>d. Return (d, None))
           | (ds, Some err) \<Rightarrow> Return ([], Some err))
      \<and> (pluckEntryData es ''version-installed'' = (ds, None) \<longrightarrow> index ds 0 = Return d \<longrightarrow>
            snd (Version w parse) = Return (d, None))
      \<and> ((\<forall>x\<in>set es. mType x \<noteq> ''version-installed'') \<longrightarrow>
            snd (Version w parse) = Return ([], Some (EntryNotFoundError ''version-installed'')))"
    using Version_plucked [of w out parse es] nf [of "''version-installed''"]
    by (auto simp: bind_def)
  show ?thesis using pluckEntryData_find first none some v by blast
qed

theorem pluckEntryData_first_match_witness:
  "pluckEntryData versionRecords ''version-installed'' = ([''2.3.0''], None)
   \<and> snd (Version (fixedWrapper ''out'') (fixedParser versionRecords)) = Return (''2.3.0'', None)"
proof -
  have p: "pluckEntryData versionRecords ''version-installed'' = ([''2.3.0''], None)"
    by (simp add: versionRecords_def)
  have r: "runner (fixedWrapper ''out'') (executable (fixedWrapper ''out'')) [''version'', ''--machine-readable'']
             = Return (''out'', None)"
    by (simp add: fixedWrapper_def)
  have q: "fixedParser versionRecords ''out'' = (versionRecords, None)"
    by (simp add: fixedParser_def)
  have i: "index [''2.3.0''] 0 = Return ''2.3.0''"
    by (simp add: index_def)
  from pluckEntryData_first_match
    [of versionRecords "''version-installed''" _ _ _ "fixedWrapper ''out''" "''out''"
        "fixedParser versionRecords" "[''2.3.0'']" "''2.3.0''"]
    r q p i
  show ?thesis by (simp add: bind_def)
qed

section \<open>Exit errors\<close>

lemma Execute_ExitError:
  assumes "ended (sys cmd args) = Exited code" "code \<noteq> 0"
  shows "Execute sys cmd args = Return (stdout (sys cmd args), Some (ExitError cmd code (stderr (sys cmd args))))"
  using assms by (simp add: Execute_def newExitError_def Let_def)

lemma exec_failed:
  assumes "runner w = Execute sys" "ended (sys (executable w) args) = Exited code" "code \<noteq> 0"
  shows "\<exists>evs. exec w args =
     (evs, Return (stdout (sys (executable w) args),
                   Some (ExitError (executable w) code (stderr (sys (executable w) args)))))"
  using exec_Return [of w args] Execute_ExitError [of sys "executable w" args code] assms by simp

text \<open>
  C7: when the process that a call runs ends with a nonzero exit code, \<open>Execute\<close>
  returns the output together with an \<open>ExitError\<close> that carries the command name, the exit
  code and the text of standard error. Every operation of a wrapper whose runner is
  \<open>Execute\<close> returns exactly this error when the process of its own command ends so,
  whatever the processes of other commands do: \<open>Up\<close>, \<open>Halt\<close>, \<open>Destroy\<close>, \<open>Status\<close>,
  \<open>Version\<close>, \<open>SSH\<close>, \<open>PluginList\<close>, and \<open>PluginInstall\<close> for a plugin with a name.
\<close>

theorem ExitError_propagated:
  fixes w :: wrapper and sys :: os and code :: int and plugin :: Plugin
  assumes run: "runner w = Execute sys" and code: "code \<noteq> 0"
  defines "cmd \<equiv> executable w"
  defines "failed args \<equiv> ExitError cmd code (stderr (sys cmd args))"
  defines "installArgs \<equiv>
      [''plugin'', ''install'', Plugin.Name plugin]
      @ (if length (Plugin.Version plugin) > 0 then [''--plugin-version'', Plugin.Version plugin] else [])
      @ (if Plugin.Location plugin = ''local'' then [''--local''] else [])"
  shows "(ended (sys cmd args) = Exited code \<longrightarrow>
            Execute sys cmd args = Return (stdout (sys cmd args), Some (failed args)))
       \<and> (ended (sys cmd [''up'']) = Exited code \<longrightarrow>
            snd (Up w) = Return (Some (failed [''up''])))
       \<and> (ended (sys cmd [''halt'']) = Exited code \<longrightarrow>
            snd (Halt w) = Return (Some (failed [''halt''])))
       \<and> (ended (sys cmd [''destroy'', ''--force'']) = Exited code \<longrightarrow>
            snd (Destroy w) = Return (Some (failed [''destroy'', ''--force''])))
       \<and> (ended (sys cmd [''status'', ''--machine-readable'']) = Exited code \<longrightarrow>
            snd (Status w parse visit) = Return ([], Some (failed [''status'', ''--machine-readable''])))
       \<and> (ended (sys cmd [''version'', ''--machine-readable'']) = Exited code \<longrightarrow>
            snd (Version w parse) = Return ([], Some (failed [''version'', ''--machine-readable''])))
       \<and> (ended (sys cmd [''ssh'', ''--no-tty'', ''--command'', command]) = Exited code \<longrightarrow>
            snd (SSH w command) =
              Return (stdout (sys cmd [''ssh'', ''--no-tty'', ''--command'', command]),
                      Some (failed [''ssh'', ''--no-tty'', ''--command'', command])))
       \<and> (ended (sys cmd [''plugin'', ''list'', ''--machine-readable'']) = Exited code \<longrightarrow>
            snd (PluginList w parse) = Return ([], Some (failed [''plugin'', ''list'', ''--machine-readable''])))
       \<and> (Plugin.Name plugin \<noteq> [] \<longrightarrow> ended (sys cmd installArgs) = Exited code \<longrightarrow>
            snd (PluginInstall w plugin) = Return (Some (failed installArgs)))"
proof -
  have e: "\<exists>evs. exec w args = (evs, Return (stdout (sys cmd args), Some (failed args)))"
    if "ended (sys cmd args) = Exited code" for args
    using exec_failed [of w sys args code] run code that by (simp add: cmd_def failed_def)
  have "ended (sys cmd args) = Exited code \<longrightarrow>
            Execute sys cmd args = Return (stdout (sys cmd args), Some (failed args))"
    using Execute_ExitError [of sys cmd args code] code by (simp add: failed_def)
  moreover have "ended (sys cmd [''up'']) = Exited code \<longrightarrow>
            snd (Up w) = Return (Some (failed [''up'']))"
    using e [of "[''up'']"] by (auto simp: Up_def)
  moreover have "ended (sys cmd [''halt'']) = Exited code \<longrightarrow>
            snd (Halt w) = Return (Some (failed [''halt'']))"
    using e [of "[''halt'']"] by (auto simp: Halt_def)
  moreover have "ended (sys cmd [''destroy'', ''--force'']) = Exited code \<longrightarrow>
            snd (Destroy w) = Return (Some (failed [''destroy'', ''--force'']))"
    using e [of "[''destroy'', ''--force'']"] by (auto simp: Destroy_def)
  moreover have "ended (sys cmd [''status'', ''--machine-readable'']) = Exited code \<longrightarrow>
            snd (Status w parse visit) = Return ([], Some (failed [''status'', ''--machine-readable'']))"
    using e [of "[''status'', ''--machine-readable'']"] by (auto simp: Status_def)
  moreover have "ended (sys cmd [''version'', ''--machine-readable'']) = Exited code \<longrightarrow>
            snd (Version w parse) = Return ([], Some (failed [''version'', ''--machine-readable'']))"
    using e [of "[''version'', ''--machine-readable'']"] by (auto simp: Version_def)
  moreover have "ended (sys cmd [''ssh'', ''--no-tty'', ''--command'', command]) = Exited code \<longrightarrow>
            snd (SSH w command) =
              Return (stdout (sys cmd [''ssh'', ''--no-tty'', ''--command'', command]),
                      Some (failed [''ssh'', ''--no-tty'', ''--command'', command]))"
    using e [of "[''ssh'', ''--no-tty'', ''--command'', command]"] by (auto simp: SSH_def)
  moreover have "ended (sys cmd [''plugin'', ''list'', ''--machine-readable'']) = Exited code \<longrightarrow>
            snd (PluginList w parse) = Return ([], Some (failed [''plugin'', ''list'', ''--machine-readable'']))"
    using e [of "[''plugin'', ''list'', ''--machine-readable'']"] by (auto simp: PluginList_def)
  moreover have "Plugin.Name plugin \<noteq> [] \<longrightarrow> ended (sys cmd installArgs) = Exited code \<longrightarrow>
            snd (PluginInstall w plugin) = Return (Some (failed installArgs))"
    using e [of installArgs] unfolding PluginInstall_def installArgs_def Let_def by auto
  ultimately show ?thesis by blast
qed

text \<open>
  A system on which only the command \<^verbatim>\<open>up\<close> fails: \<open>Up\<close> returns the exit error of its
  process.
\<close>

theorem ExitError_propagated_witness:
  "snd (Up \<lparr>executable = ''vagrant'',
             runner = Execute (\<lambda>cmd args.
               if args = [''up''] then \<lparr>stdout = ''out'', stderr = ''boom'', ended = Exited 1\<rparr>
               else \<lparr>stdout = ''ok'', stderr = [], ended = Exited 0\<rparr>)\<rparr>)
     = Return (Some (ExitError ''vagrant'' 1 ''boom''))"
  using ExitError_propagated
    [where w = "\<lparr>executable = ''vagrant'',
             runner = Execute (\<lambda>cmd args.
               if args = [''up''] then \<lparr>stdout = ''out'', stderr = ''boom'', ended = Exited 1\<rparr>
               else \<lparr>stdout = ''ok'', stderr = [], ended = Exited 0\<rparr>)\<rparr>"
       and sys = "\<lambda>cmd args.
               if args = [''up''] then \<lparr>stdout = ''out'', stderr = ''boom'', ended = Exited 1\<rparr>
               else \<lparr>stdout = ''ok'', stderr = [], ended = Exited 0\<rparr>"
       and code = 1]
  by simp

section \<open>The list of plugins\<close>

text \<open>
  \<open>submatch\<close> gives the groups of the regular expression: it succeeds exactly on the
  texts that are a non-empty name of word characters and hyphens, one space character,
  an opening parenthesis, a version without line feed, the comma token, one space
  character, a non-empty location of lower-case letters and a closing parenthesis, and
  the three groups are determined by the text.
\<close>

lemma space_not_name: "isSpace c \<Longrightarrow> \<not> isNameChar c"
  by (auto simp: isSpace_def isNameChar_def isWord_def between_def)

lemma space_not_lower: "isSpace c \<Longrightarrow> \<not> isLower c"
  by (auto simp: isSpace_def isLower_def between_def)

lemma takeWhile_stop:
  "\<forall>c\<in>set xs. P c \<Longrightarrow> \<not> P y \<Longrightarrow> takeWhile P (xs @ y # ys) = xs \<and> dropWhile P (xs @ y # ys) = y # ys"
  by (induction xs) auto

lemma submatch_complete:
  assumes s: "s = n @ sp # CHR ''('' # v @ commaToken @ sp2 # l @ '')''"
    and n: "n \<noteq> []" "\<forall>c\<in>set n. isNameChar c" and sp: "isSpace sp"
    and v: "CHR 0x0A \<notin> set v" and sp2: "isSpace sp2"
    and l: "l \<noteq> []" "\<forall>c\<in>set l. isLower c"
  shows "submatch s = Some (n, v, l)"
proof -
  let ?body = "v @ commaToken @ sp2 # l @ '')''"
  have t: "takeWhile isNameChar s = n" and d: "dropWhile isNameChar s = sp # CHR ''('' # ?body"
    using takeWhile_stop [of n isNameChar sp "CHR ''('' # ?body"] n(2) space_not_name [OF sp] s
    by auto
  have rb: "rev ?body = CHR '')'' # (rev l @ sp2 # rev commaToken @ rev v)"
    by simp
  have "\<forall>c\<in>set (rev l). isLower c" using l(2) by simp
  then have tl: "takeWhile isLower (rev l @ sp2 # rev commaToken @ rev v) = rev l"
    and dl: "dropWhile isLower (rev l @ sp2 # rev commaToken @ rev v) = sp2 # rev commaToken @ rev v"
    using takeWhile_stop [of "rev l" isLower sp2 "rev commaToken @ rev v"] space_not_lower [OF sp2]
    by auto
  show ?thesis
    unfolding submatch_def Let_def t d list.case rb tl dl
    using n(1) sp sp2 l(1) v by simp
qed

lemma submatch_sound:
  assumes "submatch s = Some (n, v, l)"
  shows "\<exists>sp sp2. s = n @ sp # CHR ''('' # v @ commaToken @ sp2 # l @ '')''
        \<and> n \<noteq> [] \<and> (\<forall>c\<in>set n. isNameChar c) \<and> isSpace sp
        \<and> CHR 0x0A \<notin> set v \<and> isSpace sp2 \<and> l \<noteq> [] \<and> (\<forall>c\<in>set l. isLower c)"
proof -
  from assms obtain sp par body close r sp2 r2 where
    d: "dropWhile isNameChar s = sp # par # body"
    and rb: "rev body = close # r"
    and dl: "dropWhile isLower r = sp2 # r2"
    and c: "takeWhile isNameChar s \<noteq> []" "isSpace sp" "par = CHR ''(''" "close = CHR '')''"
       "takeWhile isLower r \<noteq> []" "isSpace sp2" "prefix (rev commaToken) r2"
       "CHR 0x0A \<notin> set (drop (length commaToken) r2)"
    and res: "n = takeWhile isNameChar s" "v = rev (drop (length commaToken) r2)" "l = rev (takeWhile isLower r)"
    by (auto simp: submatch_def Let_def split: list.splits if_splits)
  have s: "s = n @ sp # par # body"
    using takeWhile_dropWhile_id [of isNameChar s] d res(1) by simp
  have body: "body = rev r @ [close]"
    using rb by (metis rev_rev_ident rev.simps(2))
  have r: "r = takeWhile isLower r @ sp2 # r2"
    using takeWhile_dropWhile_id [of isLower r] dl by simp
  have r2: "r2 = rev commaToken @ drop (length commaToken) r2"
    using c(7) by (auto simp: prefix_def)
  have "rev r = rev r2 @ sp2 # l"
    using r res(3) by (metis rev_append rev.simps(2) append_assoc append_Cons append_Nil)
  moreover have "rev r2 = v @ commaToken"
    using r2 res(2) by (metis rev_append rev_rev_ident)
  ultimately have "body = v @ commaToken @ sp2 # l @ '')''"
    using body c(4) by simp
  then have "s = n @ sp # CHR ''('' # v @ commaToken @ sp2 # l @ '')''"
    using s c(3) by simp
  moreover have "\<forall>c\<in>set n. isNameChar c"
    using res(1) by (auto dest: set_takeWhileD)
  moreover have "\<forall>c\<in>set l. isLower c"
    using res(3) by (auto dest: set_takeWhileD)
  ultimately show ?thesis
    using c res by auto
qed

lemma submatch_iff:
  "submatch s = Some (n, v, l) \<longleftrightarrow>
     (\<exists>sp sp2. s = n @ sp # CHR ''('' # v @ commaToken @ sp2 # l @ '')''
        \<and> n \<noteq> [] \<and> (\<forall>c\<in>set n. isNameChar c) \<and> isSpace sp
        \<and> CHR 0x0A \<notin> set v \<and> isSpace sp2 \<and> l \<noteq> [] \<and> (\<forall>c\<in>set l. isLower c))"
  using submatch_sound submatch_complete by blast

lemma pluginEntry_ui:
  assumes "mType e = ''ui''"
  shows "pluginEntry plugins e =
     (case pluginOf e of
        Some p \<Rightarrow> Return (plugins @ [p])
      | None \<Rightarrow> (if length (data e) < 2 then Panic (IndexOutOfRange 1 (length (data e)))
                 else Panic (IndexOutOfRange 0 0)))"
  using assms
  by (auto simp: pluginEntry_def pluginOf_def FindAllStringSubmatch_def bind_def index_def
      split: option.splits)

lemma pluginEntry_other: "mType e \<noteq> ''ui'' \<Longrightarrow> pluginEntry plugins e = Return plugins"
  by (simp add: pluginEntry_def)

lemma pluginLoop_extract:
  "\<forall>e\<in>set es. mType e = ''ui'' \<longrightarrow> pluginOf e \<noteq> None \<Longrightarrow>
     pluginLoop es plugins = Return (plugins @ extractPlugins es)"
proof (induction es arbitrary: plugins)
  case Nil
  then show ?case by (simp add: extractPlugins_def)
next
  case (Cons e es)
  show ?case
  proof (cases "mType e = ''ui''")
    case True
    then obtain p where p: "pluginOf e = Some p" using Cons.prems by auto
    then have "pluginEntry plugins e = Return (plugins @ [p])"
      using pluginEntry_ui [OF True] by simp
    then show ?thesis using Cons True p
      by (simp add: bind_def extractPlugins_def)
  next
    case False
    then show ?thesis using Cons
      by (simp add: bind_def pluginEntry_other extractPlugins_def)
  qed
qed

lemma length_extractPlugins:
  "\<forall>e\<in>set es. mType e = ''ui'' \<longrightarrow> pluginOf e \<noteq> None \<Longrightarrow>
     length (extractPlugins es) = length (filter (\<lambda>e. mType e = ''ui'') es)"
  by (induction es) (auto simp: extractPlugins_def)

lemma PluginList_loop:
  assumes run: "runner w (executable w) [''plugin'', ''list'', ''--machine-readable''] = Return (out, None)"
    and parse: "parse out = (es, None)"
  shows "snd (PluginList w parse) =
     (case pluginLoop es [] of Panic p \<Rightarrow> Panic p | Return plugins \<Rightarrow> Return (plugins, None))"
proof -
  obtain evs where "exec w [''plugin'', ''list'', ''--machine-readable''] = (evs, Return (out, None))"
    using exec_Return [OF run] by blast
  then show ?thesis using parse by (simp add: PluginList_def split: outcome.splits)
qed

lemmas charClasses = submatch_def isNameChar_def isWord_def between_def isLower_def isSpace_def commaToken_def

lemma submatch_vbguest:
  "submatch ''vagrant-vbguest (0.19.0%!(VAGRANT_COMMA) global)'' = Some (''vagrant-vbguest'', ''0.19.0'', ''global'')"
  by (simp add: charClasses)

lemma submatch_no_plugins: "submatch ''No plugins installed.'' = None"
  by (simp add: charClasses)

text \<open>
  C1, as amended: when the command and the parser succeed and the second data field of
  every record of type "ui" matches the pattern, \<open>PluginList\<close> returns without error the
  plugins of the records of type "ui", one for each, in the order of the records, and the
  records of other types contribute nothing. On such sequences the loop agrees with the
  listing that skips.
\<close>

theorem PluginList_well_formed:
  assumes run: "runner w (executable w) [''plugin'', ''list'', ''--machine-readable''] = Return (out, None)"
    and parse: "parse out = (es, None)"
    and wf: "\<forall>e\<in>set es. mType e = ''ui'' \<longrightarrow> pluginOf e \<noteq> None"
  shows "snd (PluginList w parse) = Return (extractPlugins es, None)
       \<and> length (extractPlugins es) = length (filter (\<lambda>e. mType e = ''ui'') es)"
  using PluginList_loop [of w out parse es] run parse
    pluginLoop_extract [OF wf, of "[]"] length_extractPlugins [OF wf]
  by simp

theorem PluginList_well_formed_witness:
  "snd (PluginList (fixedWrapper ''out'') (fixedParser pluginRecords))
     = Return ([\<lparr>Plugin.Name = ''vagrant-vbguest'', Plugin.Version = ''0.19.0'', Plugin.Location = ''global''\<rparr>], None)"
proof -
  have r: "runner (fixedWrapper ''out'') (executable (fixedWrapper ''out'')) [''plugin'', ''list'', ''--machine-readable'']
             = Return (''out'', None)"
    by (simp add: fixedWrapper_def)
  have q: "fixedParser pluginRecords ''out'' = (pluginRecords, None)"
    by (simp add: fixedParser_def)
  have wf: "\<forall>e\<in>set pluginRecords. mType e = ''ui'' \<longrightarrow> pluginOf e \<noteq> None"
    by (simp add: pluginRecords_def pluginOf_def index_def submatch_vbguest)
  have x: "extractPlugins pluginRecords
      = [\<lparr>Plugin.Name = ''vagrant-vbguest'', Plugin.Version = ''0.19.0'', Plugin.Location = ''global''\<rparr>]"
    by (simp add: extractPlugins_def pluginRecords_def pluginOf_def index_def submatch_vbguest)
  from PluginList_well_formed [of "fixedWrapper ''out''" "''out''" "fixedParser pluginRecords" pluginRecords] r q wf
  show ?thesis by (simp add: x)
qed

text \<open>
  C1 as stated fails: for a record of type "ui" whose second data field does not match,
  followed by a well-formed one, the listing that skips has the plugin of the second
  record, and \<open>PluginList\<close> returns nothing, since indexing the empty result of
  \<^verbatim>\<open>FindAllStringSubmatch\<close> with \<^verbatim>\<open>[0]\<close> panics.
\<close>

theorem PluginList_skip_counterexample:
  "extractPlugins unmatchedPluginRecords
     = [\<lparr>Plugin.Name = ''vagrant-vbguest'', Plugin.Version = ''0.19.0'', Plugin.Location = ''global''\<rparr>]
   \<and> snd (PluginList (fixedWrapper ''out'') (fixedParser unmatchedPluginRecords)) = Panic (IndexOutOfRange 0 0)"
proof -
  have x: "extractPlugins unmatchedPluginRecords
     = [\<lparr>Plugin.Name = ''vagrant-vbguest'', Plugin.Version = ''0.19.0'', Plugin.Location = ''global''\<rparr>]"
    by (simp add: extractPlugins_def unmatchedPluginRecords_def pluginOf_def index_def
        submatch_vbguest submatch_no_plugins)
  have "pluginLoop unmatchedPluginRecords [] = Panic (IndexOutOfRange 0 0)"
    by (simp add: unmatchedPluginRecords_def pluginEntry_def FindAllStringSubmatch_def bind_def index_def
        submatch_no_plugins)
  then have "snd (PluginList (fixedWrapper ''out'') (fixedParser unmatchedPluginRecords)) = Panic (IndexOutOfRange 0 0)"
    using PluginList_loop [of "fixedWrapper ''out''" "''out''" "fixedParser unmatchedPluginRecords" unmatchedPluginRecords]
    by (simp add: fixedWrapper_def fixedParser_def)
  then show ?thesis using x by simp
qed

section \<open>Lines with too few commas\<close>

lemma dropWhile_sep: "dropWhile (\<lambda>c. c \<noteq> sep) s = [] \<longleftrightarrow> sep \<notin> set s"
  by (induction s) auto

lemma cut_None: "cut sep s = None \<longleftrightarrow> sep \<notin> set s"
proof (cases "dropWhile (\<lambda>c. c \<noteq> sep) s")
  case Nil
  have "sep \<notin> set s" using Nil dropWhile_sep [of sep s] by blast
  moreover have "cut sep s = None" unfolding cut_def Nil by simp
  ultimately show ?thesis by simp
next
  case (Cons c rest)
  have "sep \<in> set s" using Cons dropWhile_sep [of sep s] by auto
  moreover have "cut sep s \<noteq> None" unfolding cut_def Cons by simp
  ultimately show ?thesis by simp
qed

lemma dropWhile_sep_Cons:
  "dropWhile (\<lambda>c. c \<noteq> sep) s = c # b \<Longrightarrow> c = sep \<and> s = takeWhile (\<lambda>c. c \<noteq> sep) s @ sep # b"
proof (induction s)
  case Nil
  then show ?case by simp
next
  case (Cons x xs)
  then show ?case by (cases "x = sep") auto
qed

lemma cut_Some:
  assumes "cut sep s = Some (a, b)"
  shows "s = a @ sep # b \<and> sep \<notin> set a"
proof (cases "dropWhile (\<lambda>c. c \<noteq> sep) s")
  case Nil
  have "cut sep s = None" unfolding cut_def Nil by simp
  then show ?thesis using assms by simp
next
  case (Cons c rest)
  have "cut sep s = Some (takeWhile (\<lambda>c. c \<noteq> sep) s, rest)" unfolding cut_def Cons by simp
  then have a: "a = takeWhile (\<lambda>c. c \<noteq> sep) s" and b: "b = rest" using assms by simp_all
  have "s = a @ sep # b" using dropWhile_sep_Cons [OF Cons] a b by simp
  moreover have "sep \<notin> set a" unfolding a by (auto dest: set_takeWhileD)
  ultimately show ?thesis by simp
qed

lemma commas_cut:
  "cut CHR '','' s = Some (a, b) \<Longrightarrow> commas s = Suc (commas b)"
  by (drule cut_Some) (auto simp: commas_def filter_empty_conv)

lemma commas_cut_None: "cut CHR '','' s = None \<Longrightarrow> commas s = 0"
  by (auto simp: cut_None commas_def filter_empty_conv)

lemma isolate_short: "commas l < 3 \<Longrightarrow> isolate l = Inl MalformedRecordError"
  by (auto simp: isolate_def split: option.splits dest!: commas_cut)

lemma cut_positive: "0 < commas s \<Longrightarrow> \<exists>a b. cut CHR '','' s = Some (a, b)"
  using commas_cut_None [of s] by (cases "cut CHR '','' s") auto

lemma isolate_enough:
  assumes "3 \<le> commas l"
  shows "\<exists>f. isolate l = Inr f"
proof -
  obtain ts rest1 where c1: "cut CHR '','' l = Some (ts, rest1)"
    using cut_positive [of l] assms by auto
  then have "2 \<le> commas rest1" using commas_cut [OF c1] assms by simp
  then obtain tgt rest2 where c2: "cut CHR '','' rest1 = Some (tgt, rest2)"
    using cut_positive [of rest1] by auto
  then have "1 \<le> commas rest2" using commas_cut [OF c2] \<open>2 \<le> commas rest1\<close> by simp
  then obtain ty raw where c3: "cut CHR '','' rest2 = Some (ty, raw)"
    using cut_positive [of rest2] by auto
  show ?thesis using c1 c2 c3 by (simp add: isolate_def)
qed

lemma isolateAll_short:
  "l \<in> set ls \<Longrightarrow> commas l < 3 \<Longrightarrow> isolateAll ls = Inl MalformedRecordError"
proof (induction ls)
  case Nil
  then show ?case by simp
next
  case (Cons x xs)
  show ?case
  proof (cases "commas x < 3")
    case True
    then show ?thesis by (simp add: isolate_short)
  next
    case False
    then obtain f where f: "isolate x = Inr f" using isolate_enough [of x] by auto
    have "l \<in> set xs" using Cons.prems False by auto
    then have "isolateAll xs = Inl MalformedRecordError" using Cons by simp
    then show ?thesis using f by simp
  qed
qed

lemma isolateAll_enough:
  "\<forall>l\<in>set ls. 3 \<le> commas l \<Longrightarrow> \<exists>fs. isolateAll ls = Inr fs"
proof (induction ls)
  case Nil
  then show ?case by simp
next
  case (Cons x xs)
  then obtain f fs where "isolate x = Inr f" "isolateAll xs = Inr fs"
    using isolate_enough [of x] by auto
  then show ?case by simp
qed

lemma toEntries_failure: "toEntries nl fs = Inl e \<Longrightarrow> \<exists>ts. e = TimestampError ts"
  by (induction fs) (auto simp: toEntry_def split: sum.splits option.splits prod.splits)

lemma parse_enough_commas:
  assumes "\<forall>l\<in>set (linesOf raw). 3 \<le> commas l"
  shows "snd (parseMachineReadable nl raw) \<noteq> Some MalformedRecordError"
proof -
  obtain fs where "isolateAll (linesOf raw) = Inr fs"
    using isolateAll_enough [OF assms] by blast
  then show ?thesis
    using toEntries_failure [of nl fs]
    by (auto simp: parseMachineReadable_def split: sum.splits)
qed

text \<open>
  C5: when the input has a line with fewer than three commas, the whole parse fails with
  \<open>MalformedRecordError\<close> and there are no records: the parser does not skip the line and
  continue, whatever the other lines are.
\<close>

theorem parse_aborts_on_short_line:
  assumes "l \<in> set (linesOf raw)" "commas l < 3"
  shows "parseMachineReadable nl raw = ([], Some MalformedRecordError)"
  using isolateAll_short [OF assms] by (simp add: parseMachineReadable_def)

theorem parse_aborts_on_short_line_witness:
  "parseMachineReadable backslashN shortLineAfterBadTimestamp = ([], Some MalformedRecordError)"
proof -
  have "linesOf shortLineAfterBadTimestamp = [''x,,ui,info'', ''bad'']"
    by (simp add: shortLineAfterBadTimestamp_def linesOf_def)
  then have a: "''bad'' \<in> set (linesOf shortLineAfterBadTimestamp)" by simp
  have b: "commas ''bad'' < 3" by (simp add: commas_def)
  from parse_aborts_on_short_line [OF a b] show ?thesis .
qed

section \<open>Escaped commas and line feeds\<close>










lemma splitOn_nonempty: "splitOn sep s \<noteq> []"
  by (induction s) (auto split: list.splits)











section \<open>From the output of the command to the statuses\<close>

text \<open>
  With the parser of the spec, the two status lines give one status, and the state line
  without data gives the record on which \<open>Status\<close> panics. In the other order of decoding
  and splitting, an escaped comma splits its field.
\<close>

lemmas parserEval = parseMachineReadable_def linesOf_def isolate_def toEntry_def cut_def parseInt_def parseNat_def
  isDigit_def between_def decodeData_def decode_def commaToken_def backslashN_def replaceAll.simps

lemma parse_statusOutput:
  "parseMachineReadable backslashN statusOutput =
     ([\<lparr>timestamp = 1700000000, target = ''default'', mType = ''state'', data = [''running'']\<rparr>,
       \<lparr>timestamp = 1700000000, target = ''default'', mType = ''provider-name'', data = [''virtualbox'']\<rparr>],
      None)"
  by (simp add: statusOutput_def parserEval)

lemma parse_stateWithoutData:
  "parseMachineReadable backslashN (''1700000000,default,state,'' @ [CHR 0x0A]) = (stateWithoutData, None)"
  by (simp add: stateWithoutData_def parserEval)

lemma Status_statusOutput:
  "snd (Status (fixedWrapper statusOutput) (parseMachineReadable backslashN) visit) =
     Return (map snd (visit [(''default'',
        \<lparr>Name = ''default'', Provider = ''virtualbox'', State = Some Running\<rparr>)]), None)"
proof -
  have "statusLoop (fst (parseMachineReadable backslashN statusOutput)) [] =
      Return [(''default'', \<lparr>Name = ''default'', Provider = ''virtualbox'', State = Some Running\<rparr>)]"
    unfolding parse_statusOutput
    by (simp add: statusEntry_def fetch_def Let_def bind_def index_def ToMachineState_def stateNames_def)
  then show ?thesis
    using Status_Return [of "fixedWrapper statusOutput" statusOutput "parseMachineReadable backslashN" _ _ visit]
      parse_statusOutput
    by (simp add: fixedWrapper_def)
qed

lemma decodeThenSplit_comma:
  "decodeThenSplit backslashN (encodeData backslashN [''a,b'']) = [''a'', ''b'']
   \<and> decodeThenSplit backslashN (encodeData backslashN [''%!(VAGRANT_COMMA)'']) = ['''', '''']"
  by (simp add: decodeThenSplit_def encodeData_def encode_def decode_def commaToken_def backslashN_def
      replaceAll.simps)

section \<open>Installing a plugin without a name\<close>

text \<open>
  C9: \<open>PluginInstall\<close> called with a plugin whose name is the empty string returns the
  error "plugin must have a name", and no event happens at all: in particular the runner
  is never invoked, whatever the runner is.
\<close>

theorem PluginInstall_empty_name:
  assumes "Plugin.Name plugin = []"
  shows "PluginInstall w plugin = ([], Return (Some (ErrorString ''plugin must have a name'')))
       \<and> (\<forall>cmd args. Executed cmd args \<notin> set (fst (PluginInstall w plugin)))
       \<and> PluginInstall (w\<lparr>runner := r\<rparr>) plugin = PluginInstall w plugin"
  using assms by (simp add: PluginInstall_def)

theorem PluginInstall_empty_name_witness:
  "Plugin.Name \<lparr>Plugin.Name = [], Plugin.Version = ''1.0'', Plugin.Location = ''local''\<rparr> = []
   \<and> PluginInstall \<lparr>executable = ''vagrant'', runner = (\<lambda>cmd args. Panic (PanicMsg ''called''))\<rparr>
         \<lparr>Plugin.Name = [], Plugin.Version = ''1.0'', Plugin.Location = ''local''\<rparr>
       = ([], Return (Some (ErrorString ''plugin must have a name'')))"
  using PluginInstall_empty_name
    [of "\<lparr>Plugin.Name = [], Plugin.Version = ''1.0'', Plugin.Location = ''local''\<rparr>"
        "\<lparr>executable = ''vagrant'', runner = (\<lambda>cmd args. Panic (PanicMsg ''called''))\<rparr>"]
  by simp

end
